theory Spec2Isabelle
  imports Complex_Main "HOL-Library.Word"
begin

section \<open>JavaScript values as the Home Assistant client sees them\<close>

text \<open>
  A JavaScript string is a sequence of 16-bit code units. The literals of the source are
  ASCII; \<open>lit\<close> embeds them.
\<close>

type_synonym code_unit = "16 word"
type_synonym jsstring = "code_unit list"

definition lit :: "string \<Rightarrow> jsstring" where
  "lit s = map of_char s"

text \<open>
  A JavaScript number is a double: a finite value (every finite double is a rational;
  the code only compares numbers, and comparison of finite doubles is comparison of
  their rational values, with \<open>-0\<close> equal to \<open>0\<close>), \<open>NaN\<close> or an infinity.
\<close>

datatype number = Finite rat | NaN | PosInf | NegInf

text \<open>The operator \<open><\<close> of JavaScript on numbers: every comparison with \<open>NaN\<close> is false.\<close>

fun num_less :: "number \<Rightarrow> number \<Rightarrow> bool" where
  "num_less NaN _ = False"
| "num_less _ NaN = False"
| "num_less (Finite a) (Finite b) = (a < b)"
| "num_less (Finite a) PosInf = True"
| "num_less (Finite a) NegInf = False"
| "num_less PosInf _ = False"
| "num_less NegInf NegInf = False"
| "num_less NegInf _ = True"

text \<open>\<open>a > b\<close> is \<open>b < a\<close>.\<close>

definition num_greater :: "number \<Rightarrow> number \<Rightarrow> bool" where
  "num_greater a b = num_less b a"

text \<open>
  The values a response body (\<open>response.data\<close>) and a request body can hold: what
  \<open>JSON.parse\<close> produces, a plain string, or \<open>undefined\<close>. An object is the list of its
  own properties.
\<close>

datatype jsval =
    Undefined
  | Null
  | Bool bool
  | Num number
  | Str jsstring
  | Arr "jsval list"
  | Obj "(jsstring \<times> jsval) list"

text \<open>
  Reading a property \<open>v.name\<close>. It throws a \<open>TypeError\<close> (\<open>None\<close>) on \<open>null\<close> and
  \<open>undefined\<close>; on an object it is the own property, else \<open>undefined\<close>; on every other
  value it is \<open>undefined\<close>. The names the client reads (\<open>entity_id\<close>, \<open>state\<close>,
  \<open>attributes\<close>, \<open>brightness\<close>, \<open>rgb_color\<close>) are defined by no prototype.
\<close>

fun get_prop :: "jsval \<Rightarrow> jsstring \<Rightarrow> jsval option" where
  "get_prop Undefined k = None"
| "get_prop Null k = None"
| "get_prop (Obj kvs) k = (case map_of kvs k of None \<Rightarrow> Some Undefined | Some v \<Rightarrow> Some v)"
| "get_prop _ k = Some Undefined"

text \<open>The decimal name of an array index, the property key \<open>v[i]\<close> reads on an object.\<close>

definition digit :: "nat \<Rightarrow> char" where
  "digit d = ''0123456789'' ! d"

function index_key :: "nat \<Rightarrow> string" where
  "index_key n =
     (if n < 10 then [digit n] else index_key (n div 10) @ [digit (n mod 10)])"
  by pat_completeness auto
termination
  by (relation "measure id") auto

text \<open>
  Reading an element \<open>v[i]\<close> of a value that is neither \<open>null\<close> nor \<open>undefined\<close>: an
  array's or a string's element when in range, an object's property of that name,
  \<open>undefined\<close> otherwise.
\<close>

fun get_index :: "jsval \<Rightarrow> nat \<Rightarrow> jsval option" where
  "get_index Undefined i = None"
| "get_index Null i = None"
| "get_index (Arr xs) i = Some (if i < length xs then xs ! i else Undefined)"
| "get_index (Str s) i = Some (if i < length s then Str [s ! i] else Undefined)"
| "get_index (Obj kvs) i =
     (case map_of kvs (lit (index_key i)) of None \<Rightarrow> Some Undefined | Some v \<Rightarrow> Some v)"
| "get_index _ i = Some Undefined"

text \<open>Truthiness, as a condition \<open>v ? a : b\<close> tests it.\<close>

fun truthy :: "jsval \<Rightarrow> bool" where
  "truthy Undefined = False"
| "truthy Null = False"
| "truthy (Bool b) = b"
| "truthy (Num n) = (n \<noteq> Finite 0 \<and> n \<noteq> NaN)"
| "truthy (Str s) = (s \<noteq> [])"
| "truthy (Arr xs) = True"
| "truthy (Obj kvs) = True"

text \<open>\<open>String.prototype.startsWith\<close> with the search string as second argument.\<close>

definition startsWith :: "jsstring \<Rightarrow> jsstring \<Rightarrow> bool" where
  "startsWith s p = (take (length p) s = p)"

text \<open>
  The method call \<open>v.startsWith(p)\<close> on any value: only a string has the method; on
  every other value the call throws a \<open>TypeError\<close> (a property of \<open>null\<close> or
  \<open>undefined\<close> cannot be read, and parsed JSON holds no function).
\<close>

fun call_startsWith :: "jsval \<Rightarrow> jsstring \<Rightarrow> bool option" where
  "call_startsWith (Str s) p = Some (startsWith s p)"
| "call_startsWith _ p = None"

text \<open>
  \<open>Array.prototype.filter\<close> and \<open>Array.prototype.map\<close> with a callback that may throw:
  the elements are visited in order and the first exception ends the call.
\<close>

fun filter_js :: "('a \<Rightarrow> bool option) \<Rightarrow> 'a list \<Rightarrow> 'a list option" where
  "filter_js p [] = Some []"
| "filter_js p (x # xs) =
     (case p x of
        None \<Rightarrow> None
      | Some b \<Rightarrow>
          (case filter_js p xs of
             None \<Rightarrow> None
           | Some ys \<Rightarrow> Some (if b then x # ys else ys)))"

fun map_js :: "('a \<Rightarrow> 'b option) \<Rightarrow> 'a list \<Rightarrow> 'b list option" where
  "map_js f [] = Some []"
| "map_js f (x # xs) =
     (case f x of
        None \<Rightarrow> None
      | Some y \<Rightarrow> (case map_js f xs of None \<Rightarrow> None | Some ys \<Rightarrow> Some (y # ys)))"

section \<open>The HTTP client\<close>

text \<open>
  The requests the axios instance issues, with paths relative to the base URL, and what
  awaiting one gives: a response (status and body) or a rejection (no answer, a timeout,
  a status axios refuses).
\<close>

datatype request = Get jsstring | Post jsstring jsval

datatype outcome = Resolved int jsval | Rejected

text \<open>
  The server answers a request as a function of the requests sent before it, so that its
  answers can change as the client acts on it.
\<close>

type_synonym server = "request list \<Rightarrow> request \<Rightarrow> outcome"

text \<open>
  What the client changes: the requests sent so far, in order, and the lines written with
  \<open>console.error\<close> (the message; the error object printed after it is left out).
\<close>

record client_state =
  sent :: "request list"
  console :: "jsstring list"

definition send :: "request \<Rightarrow> client_state \<Rightarrow> client_state" where
  "send r st = st\<lparr>sent := sent st @ [r]\<rparr>"

definition console_error :: "jsstring \<Rightarrow> client_state \<Rightarrow> client_state" where
  "console_error msg st = st\<lparr>console := console st @ [msg]\<rparr>"

section \<open>HomeAssistantClient\<close>

datatype on_off = On | Off

text \<open>
  \<open>LightState\<close> as \<open>getLightState\<close> builds it at run time: \<open>entityId\<close> and \<open>brightness\<close>
  are whatever the body holds, \<open>color\<close> is absent (\<open>undefined\<close>) or the three elements read.
\<close>

record LightState =
  entityId :: jsval
  state :: on_off
  brightness :: jsval
  color :: "(jsval \<times> jsval \<times> jsval) option"

text \<open>The object literal of \<open>getLightState\<close>; \<open>None\<close> when building it throws.\<close>

definition light_state_of :: "jsval \<Rightarrow> LightState option" where
  "light_state_of st =
     (case get_prop st (lit ''entity_id'') of
        None \<Rightarrow> None
      | Some eid \<Rightarrow>
     (case get_prop st (lit ''state'') of
        None \<Rightarrow> None
      | Some s \<Rightarrow>
     (case get_prop st (lit ''attributes'') of
        None \<Rightarrow> None
      | Some attrs \<Rightarrow>
     (case get_prop attrs (lit ''brightness'') of
        None \<Rightarrow> None
      | Some b \<Rightarrow>
     (case get_prop attrs (lit ''rgb_color'') of
        None \<Rightarrow> None
      | Some rgb \<Rightarrow>
     (if truthy rgb then
        (case (get_index rgb 0, get_index rgb 1, get_index rgb 2) of
           (Some r, Some g, Some bl) \<Rightarrow>
             Some \<lparr>entityId = eid, state = (if s = Str (lit ''on'') then On else Off),
                    brightness = b, color = Some (r, g, bl)\<rparr>
         | _ \<Rightarrow> None)
      else
        Some \<lparr>entityId = eid, state = (if s = Str (lit ''on'') then On else Off),
               brightness = b, color = None\<rparr>))))))"

definition getLightState ::
  "server \<Rightarrow> client_state \<Rightarrow> jsstring \<Rightarrow> LightState option \<times> client_state" where
  "getLightState srv st entity =
     (let req = Get (lit ''/api/states/'' @ entity);
          failed = console_error (lit ''Failed to get state for '' @ entity @ lit '':'')
      in case srv (sent st) req of
           Rejected \<Rightarrow> (None, failed (send req st))
         | Resolved status data \<Rightarrow>
             (case light_state_of data of
                None \<Rightarrow> (None, failed (send req st))
              | Some ls \<Rightarrow> (Some ls, send req st)))"

text \<open>The body \<open>serviceData\<close> of \<open>turnLightOn\<close>, its properties in the order they are set.\<close>

definition serviceData ::
  "jsstring \<Rightarrow> number option \<Rightarrow> (number \<times> number \<times> number) option \<Rightarrow> jsval" where
  "serviceData entity bright rgbColor =
     Obj ([(lit ''entity_id'', Str entity)]
          @ (case bright of None \<Rightarrow> [] | Some b \<Rightarrow> [(lit ''brightness'', Num b)])
          @ (case rgbColor of
               None \<Rightarrow> []
             | Some (r, g, b) \<Rightarrow> [(lit ''rgb_color'', Arr [Num r, Num g, Num b])]))"

definition turnLightOn ::
  "server \<Rightarrow> client_state \<Rightarrow> jsstring \<Rightarrow> number option \<Rightarrow>
   (number \<times> number \<times> number) option \<Rightarrow> bool \<times> client_state" where
  "turnLightOn srv st entity bright rgbColor =
     (let req = Post (lit ''/api/services/light/turn_on'') (serviceData entity bright rgbColor)
      in case srv (sent st) req of
           Resolved status data \<Rightarrow> (status = 200, send req st)
         | Rejected \<Rightarrow>
             (False,
              console_error (lit ''Failed to turn on light '' @ entity @ lit '':'')
                (send req st)))"

definition turnLightOff :: "server \<Rightarrow> client_state \<Rightarrow> jsstring \<Rightarrow> bool \<times> client_state" where
  "turnLightOff srv st entity =
     (let req = Post (lit ''/api/services/light/turn_off'')
                  (Obj [(lit ''entity_id'', Str entity)])
      in case srv (sent st) req of
           Resolved status data \<Rightarrow> (status = 200, send req st)
         | Rejected \<Rightarrow>
             (False,
              console_error (lit ''Failed to turn off light '' @ entity @ lit '':'')
                (send req st)))"

text \<open>
  \<open>toggleLight\<close>: the three calls it awaits return a value on every path, so the
  \<open>catch\<close> around them has nothing to catch.
\<close>

definition toggleLight :: "server \<Rightarrow> client_state \<Rightarrow> jsstring \<Rightarrow> bool \<times> client_state" where
  "toggleLight srv st entity =
     (case getLightState srv st entity of
        (None, st1) \<Rightarrow> (False, st1)
      | (Some currentState, st1) \<Rightarrow>
          (if state currentState = On then turnLightOff srv st1 entity
           else turnLightOn srv st1 entity None None))"

text \<open>The callbacks of \<open>getAllLights\<close>.\<close>

definition is_light :: "jsval \<Rightarrow> bool option" where
  "is_light st =
     (case get_prop st (lit ''entity_id'') of
        None \<Rightarrow> None
      | Some eid \<Rightarrow> call_startsWith eid (lit ''light.''))"

definition entity_id_of :: "jsval \<Rightarrow> jsval option" where
  "entity_id_of st = get_prop st (lit ''entity_id'')"

text \<open>
  \<open>states.filter(...).map(...)\<close>: only an array has \<open>filter\<close>; on any other body the
  call throws.
\<close>

definition light_ids :: "jsval \<Rightarrow> jsval list option" where
  "light_ids states =
     (case states of
        Arr xs \<Rightarrow>
          (case filter_js is_light xs of
             None \<Rightarrow> None
           | Some ys \<Rightarrow> map_js entity_id_of ys)
      | _ \<Rightarrow> None)"

definition getAllLights :: "server \<Rightarrow> client_state \<Rightarrow> jsval list \<times> client_state" where
  "getAllLights srv st =
     (let req = Get (lit ''/api/states'');
          failed = console_error (lit ''Failed to get all lights:'')
      in case srv (sent st) req of
           Rejected \<Rightarrow> ([], failed (send req st))
         | Resolved status data \<Rightarrow>
             (case light_ids data of
                None \<Rightarrow> ([], failed (send req st))
              | Some ids \<Rightarrow> (ids, send req st)))"

definition setLightBrightness ::
  "server \<Rightarrow> client_state \<Rightarrow> jsstring \<Rightarrow> number \<Rightarrow> bool \<times> client_state" where
  "setLightBrightness srv st entity bright =
     (if num_less bright (Finite 0) \<or> num_greater bright (Finite 255) then
        (False, console_error (lit ''Brightness must be between 0 and 255'') st)
      else turnLightOn srv st entity (Some bright) None)"

section \<open>The connection configuration of the demo\<close>

text \<open>
  \<open>SshRemoteCodeConfig\<close> as the demo's configuration fills it in. The credential
  (\<open>privateKey\<close> or \<open>password\<close>) is left out: whether the host accepts it is an input of
  \<open>connect\<close> below.
\<close>

record SshRemoteCodeConfig =
  host :: string
  username :: string
  sandboxPath :: string
  port :: nat
  connectTimeout :: nat
  readyTimeout :: nat
  preBuildCommand :: bool
  preBuildCustomCommand :: "string option"

definition ubuntuConfig :: SshRemoteCodeConfig where
  "ubuntuConfig =
     \<lparr>host = ''192.168.1.65'', username = ''villafavero'',
      sandboxPath = ''/home/villafavero/testcode/dist'', port = 22,
      connectTimeout = 10000, readyTimeout = 20000,
      preBuildCommand = True,
      preBuildCustomCommand = Some ''npm install && npm run build''\<rparr>"

section \<open>The remote invocation substrate\<close>

text \<open>
  The library the demo imports (\<open>SshRemoteCode\<close>: the transport connection, the script
  generator and the remote executor) is not among the sources. The definitions of this
  section follow the specification, sections 3, 4.1 to 4.3 and 7.
\<close>

datatype conn_state = Idle | Connecting | Ready | Closing | Closed | Errored

text \<open>The result envelope, and a line of standard output: an envelope or anything else.\<close>

datatype envelope = Success jsval | Failure string

datatype line = EnvelopeLine envelope | OtherLine string

record command_result =
  exit_code :: int
  stdout :: "line list"
  stderr :: string

datatype error =
    AuthenticationError
  | TimeoutError
  | NetworkError
  | BuildError string
  | NotConnectedError
  | RemoteExecutionError int "line list" string
  | RemoteLogicError string
  | SerializationError

subsection \<open>Transport connection: connect\<close>

text \<open>How the handshake of the secure-shell session ends.\<close>

datatype handshake = Established | CredentialRejected | NoHandshakeInTime | TransportFailure

text \<open>
  Modelled from the spec: the pre-build step of a configuration (section 3, "optional
  pre-build flag and custom build command"); the library's choice of command is missing
  from the sources. The step is configured when the flag is set; it runs the custom
  command when there is one, else the library's default command, a parameter here.
\<close>

definition build_step :: "string \<Rightarrow> SshRemoteCodeConfig \<Rightarrow> string option" where
  "build_step default_build cfg =
     (if preBuildCommand cfg then
        Some (case preBuildCustomCommand cfg of None \<Rightarrow> default_build | Some c \<Rightarrow> c)
      else None)"

text \<open>
  Modelled from the spec: \<open>connect()\<close> of the Transport Connection (section 4.1, with the
  states of section 3); \<open>SshRemoteCode.connect\<close> is missing from the sources. The
  result is the failure if any, and the states the connection enters, in order: first
  \<open>Connecting\<close>, then \<open>Ready\<close> after a successful handshake and, if a pre-build step is
  configured, after it exits with status zero; \<open>Errored\<close> otherwise. \<open>run\<close> is the
  remote host running a command in the sandbox path.
\<close>

definition connect_run ::
  "string \<Rightarrow> handshake \<Rightarrow> (string \<Rightarrow> command_result) \<Rightarrow> SshRemoteCodeConfig \<Rightarrow>
   error option \<times> conn_state list" where
  "connect_run default_build hs run cfg =
     (case hs of
        CredentialRejected \<Rightarrow> (Some AuthenticationError, [Connecting, Errored])
      | NoHandshakeInTime \<Rightarrow> (Some TimeoutError, [Connecting, Errored])
      | TransportFailure \<Rightarrow> (Some NetworkError, [Connecting, Errored])
      | Established \<Rightarrow>
          (case build_step default_build cfg of
             None \<Rightarrow> (None, [Connecting, Ready])
           | Some cmd \<Rightarrow>
               (if exit_code (run cmd) = 0 then (None, [Connecting, Ready])
                else (Some (BuildError (stderr (run cmd))), [Connecting, Errored]))))"

text \<open>The connection: its configuration and its state.\<close>

record connection =
  config :: SshRemoteCodeConfig
  conn_state :: conn_state

text \<open>
  Modelled from the spec: \<open>connect()\<close> as a transition of the connection (section 3):
  the connection ends in the last state \<open>connect_run\<close> enters.
\<close>

definition connect ::
  "string \<Rightarrow> handshake \<Rightarrow> (string \<Rightarrow> command_result) \<Rightarrow> connection \<Rightarrow>
   error option \<times> connection" where
  "connect default_build hs run c =
     (case connect_run default_build hs run (config c) of
        (err, states) \<Rightarrow> (err, c\<lparr>conn_state := last states\<rparr>))"

subsection \<open>Script generator: the generated program\<close>

text \<open>
  The remote sandbox: a module path loads to a module or fails to load (\<open>None\<close>); a
  module exports functions by name; a function, given the argument list, returns a value
  or throws (rejects) with a message.
\<close>

type_synonym remote_fn = "jsval list \<Rightarrow> string + jsval"
type_synonym remote_module = "string \<Rightarrow> remote_fn option"
type_synonym sandbox = "string \<Rightarrow> remote_module option"

text \<open>
  Modelled from the spec: the program source the Script Generator renders (section 4.2);
  the generator is missing from the sources. A program is what it was rendered from.
\<close>

record program =
  modulePath :: string
  functionName :: string
  args :: "jsval list"

definition generate :: "string \<Rightarrow> string \<Rightarrow> jsval list \<Rightarrow> program" where
  "generate mp fn as = \<lparr>modulePath = mp, functionName = fn, args = as\<rparr>"

text \<open>
  Modelled from the spec: the message of the failure envelope for an absent member
  (section 8: it "identifies the missing export"); the wording is missing from the
  sources.
\<close>

definition missing_export :: "string \<Rightarrow> string" where
  "missing_export fn = ''Function '' @ fn @ '' is not exported''"

text \<open>
  Modelled from the spec: the contract of the generated program (section 4.2, steps 1 to
  6); the generated script is missing from the sources. A module that fails to load is
  an uncaught crash: non-zero exit status, content on standard error, no envelope line.
  An absent member and a function that throws print one failure envelope and exit with
  status zero; a function that returns prints one success envelope.
\<close>

definition run_program :: "sandbox \<Rightarrow> program \<Rightarrow> command_result" where
  "run_program sb p =
     (case sb (modulePath p) of
        None \<Rightarrow>
          \<lparr>exit_code = 1, stdout = [], stderr = ''Cannot find module '' @ modulePath p\<rparr>
      | Some m \<Rightarrow>
          (case m (functionName p) of
             None \<Rightarrow>
               \<lparr>exit_code = 0,
                stdout = [EnvelopeLine (Failure (missing_export (functionName p)))],
                stderr = []\<rparr>
           | Some f \<Rightarrow>
               (case f (args p) of
                  Inl msg \<Rightarrow>
                    \<lparr>exit_code = 0, stdout = [EnvelopeLine (Failure msg)], stderr = []\<rparr>
                | Inr v \<Rightarrow>
                    \<lparr>exit_code = 0, stdout = [EnvelopeLine (Success v)], stderr = []\<rparr>)))"

subsection \<open>Remote executor\<close>

text \<open>
  The remote host during one invocation: the sandbox, the files under the artifact
  directory, and which transport operations fail.
\<close>

record remote =
  sandbox :: sandbox
  files :: "string \<Rightarrow> program option"

record faults =
  upload_fails :: bool
  run_fails :: bool
  delete_fails :: bool

datatype transport_op = UploadFile string | RunCommand string | DeleteFile string

text \<open>
  Modelled from the spec: the artifact path of an invocation (section 3, Disposable
  Artifact; section 4.3, step 2), derived from the invocation's correlation id; the
  naming is missing from the sources.
\<close>

definition artifact_path :: "nat \<Rightarrow> string" where
  "artifact_path cid = ''/tmp/ssh-remote-code-'' @ index_key cid @ ''.js''"

text \<open>
  Modelled from the spec: reading the run's output (section 4.3, steps 6 and 7, and
  section 6, which has the parser select the last well-formed line);
  \<open>RemoteExecutor\<close> is missing from the sources.
\<close>

definition envelopes :: "line list \<Rightarrow> envelope list" where
  "envelopes ls = concat (map (\<lambda>l. case l of EnvelopeLine e \<Rightarrow> [e] | OtherLine _ \<Rightarrow> []) ls)"

definition read_result :: "command_result \<Rightarrow> error + jsval" where
  "read_result r =
     (case envelopes (stdout r) of
        [] \<Rightarrow> Inl (RemoteExecutionError (exit_code r) (stdout r) (stderr r))
      | es \<Rightarrow>
          (case last es of
             Success v \<Rightarrow> Inr v
           | Failure msg \<Rightarrow> Inl (RemoteLogicError msg)))"

text \<open>What one invocation leaves: its result, the remote host, the transport operations
  attempted in order, and the secondary diagnostics.\<close>

record invocation_result =
  result :: "error + jsval"
  remote_after :: remote
  attempted :: "transport_op list"
  diagnostics :: "string list"

text \<open>
  Modelled from the spec: \<open>executeFunction\<close> of the Remote Executor (section 4.3, steps 1
  to 7, and the cleanup policy of section 7); \<open>RemoteExecutor.executeFunction\<close> is
  missing from the sources. A transport failure of the upload or of the run is a
  \<open>NetworkError\<close>; the deletion is attempted whatever happened before it, and its
  failure only adds a diagnostic.
\<close>

definition executeFunction ::
  "faults \<Rightarrow> nat \<Rightarrow> connection \<Rightarrow> remote \<Rightarrow> string \<Rightarrow> string \<Rightarrow> jsval list \<Rightarrow>
   invocation_result" where
  "executeFunction flt cid c rem mp fn as =
     (if conn_state c \<noteq> Ready then
        \<lparr>result = Inl NotConnectedError, remote_after = rem, attempted = [],
         diagnostics = []\<rparr>
      else
        let path = artifact_path cid;
            prog = generate mp fn as;
            uploaded = \<not> upload_fails flt;
            rem1 = (if uploaded then rem\<lparr>files := (files rem)(path := Some prog)\<rparr> else rem);
            ran = (if uploaded \<and> \<not> run_fails flt then
                     (case files rem1 path of
                        None \<Rightarrow> None
                      | Some p \<Rightarrow> Some (run_program (sandbox rem1) p))
                   else None);
            rem2 = (if delete_fails flt then rem1
                    else rem1\<lparr>files := (files rem1)(path := None)\<rparr>)
        in \<lparr>result = (case ran of None \<Rightarrow> Inl NetworkError | Some r \<Rightarrow> read_result r),
            remote_after = rem2,
            attempted = [UploadFile path]
              @ (if uploaded then [RunCommand (''node '' @ path)] else [])
              @ [DeleteFile path],
            diagnostics = (if delete_fails flt then [''could not delete '' @ path] else [])\<rparr>)"

section \<open>Example inputs\<close>

definition st0 :: client_state where
  "st0 = \<lparr>sent = [], console = []\<rparr>"

text \<open>A server that answers every request with status 200 and the given body.\<close>

definition always :: "jsval \<Rightarrow> server" where
  "always body = (\<lambda>history req. Resolved 200 body)"

definition unreachable :: server where
  "unreachable = (\<lambda>history req. Rejected)"

definition bedroom :: jsstring where
  "bedroom = lit ''light.bedroom''"

definition bedroom_state :: "string \<Rightarrow> jsval" where
  "bedroom_state s =
     Obj [(lit ''entity_id'', Str bedroom), (lit ''state'', Str (lit s)),
          (lit ''attributes'', Obj [(lit ''brightness'', Num (Finite 128))])]"

definition all_states :: jsval where
  "all_states =
     Arr [bedroom_state ''on'',
          Obj [(lit ''entity_id'', Str (lit ''sensor.outdoor'')), (lit ''state'', Str (lit ''7''))],
          Obj [(lit ''entity_id'', Str (lit ''light.kitchen'')), (lit ''state'', Str (lit ''off''))]]"

text \<open>A remote sandbox with one module, \<open>./index\<close>, exporting \<open>echo\<close>.\<close>

definition echo :: remote_fn where
  "echo as = Inr (Arr as)"

definition demo_sandbox :: sandbox where
  "demo_sandbox =
     (\<lambda>mp. if mp = ''./index'' then Some (\<lambda>fn. if fn = ''echo'' then Some echo else None)
            else None)"

definition demo_remote :: remote where
  "demo_remote = \<lparr>sandbox = demo_sandbox, files = (\<lambda>p. None)\<rparr>"

definition ready_connection :: connection where
  "ready_connection = \<lparr>config = ubuntuConfig, conn_state = Ready\<rparr>"

definition idle_connection :: connection where
  "idle_connection = \<lparr>config = ubuntuConfig, conn_state = Idle\<rparr>"

text \<open>A remote host on which every command exits with status 1, as \<open>exit 1\<close> does.\<close>

definition failing_build :: "string \<Rightarrow> command_result" where
  "failing_build cmd = \<lparr>exit_code = 1, stdout = [], stderr = ''npm ERR! build failed''\<rparr>"

definition no_faults :: faults where
  "no_faults = \<lparr>upload_fails = False, run_fails = False, delete_fails = False\<rparr>"

definition bedroom_light :: "on_off \<Rightarrow> LightState" where
  "bedroom_light s =
     \<lparr>entityId = Str bedroom, state = s, brightness = Num (Finite 128), color = None\<rparr>"

definition st1 :: client_state where
  "st1 = send (Get (lit ''/api/states/'' @ bedroom)) st0"

section \<open>Properties of HomeAssistantClient\<close>

subsection \<open>setLightBrightness\<close>

text \<open>
  C8. \<open>setLightBrightness(entityId, brightness)\<close> returns \<open>false\<close> and issues no HTTP
  request whenever \<open>brightness < 0\<close> or \<open>brightness > 255\<close>; for every brightness in
  \<open>[0, 255]\<close> it is exactly \<open>turnLightOn(entityId, brightness)\<close>: the same result and the
  same requests.
\<close>

theorem setLightBrightness_range:
  "(num_less b (Finite 0) \<or> num_greater b (Finite 255) \<longrightarrow>
      fst (setLightBrightness srv st e b) = False
      \<and> sent (snd (setLightBrightness srv st e b)) = sent st)
   \<and> (\<forall>r. b = Finite r \<and> 0 \<le> r \<and> r \<le> 255 \<longrightarrow>
      setLightBrightness srv st e b = turnLightOn srv st e (Some b) None)"
  by (auto simp: setLightBrightness_def console_error_def num_greater_def)

theorem setLightBrightness_range_witness:
  "num_greater (Finite 256) (Finite 255)
   \<and> fst (setLightBrightness (always Null) st0 bedroom (Finite 256)) = False
   \<and> sent (snd (setLightBrightness (always Null) st0 bedroom (Finite 256))) = sent st0
   \<and> num_less (Finite (- 1)) (Finite 0)
   \<and> fst (setLightBrightness (always Null) st0 bedroom (Finite (- 1))) = False
   \<and> sent (snd (setLightBrightness (always Null) st0 bedroom (Finite (- 1)))) = sent st0
   \<and> (0::rat) \<le> 128 \<and> (128::rat) \<le> 255
   \<and> setLightBrightness (always Null) st0 bedroom (Finite 128)
       = turnLightOn (always Null) st0 bedroom (Some (Finite 128)) None"
  using setLightBrightness_range [of "Finite 256" "always Null" st0 bedroom]
    setLightBrightness_range [of "Finite (- 1)" "always Null" st0 bedroom]
    setLightBrightness_range [of "Finite 128" "always Null" st0 bedroom]
  by (simp add: num_greater_def)

text \<open>
  \<open>NaN\<close> is neither below 0 nor above 255 for the two comparisons, so it is passed on to
  \<open>turnLightOn\<close>.
\<close>

lemma setLightBrightness_NaN:
  "setLightBrightness srv st e NaN = turnLightOn srv st e (Some NaN) None"
  by (simp add: setLightBrightness_def num_greater_def)

text \<open>What \<open>turnLightOn\<close> does with a brightness: one POST, and \<open>true\<close> only on status 200.\<close>

lemma turnLightOn_request:
  "sent (snd (turnLightOn srv st e bright rgb))
     = sent st @ [Post (lit ''/api/services/light/turn_on'') (serviceData e bright rgb)]"
  by (simp add: turnLightOn_def Let_def send_def console_error_def split: outcome.splits)

lemma turnLightOn_result:
  "fst (turnLightOn srv st e bright rgb)
     = (\<exists>body. srv (sent st)
                 (Post (lit ''/api/services/light/turn_on'') (serviceData e bright rgb))
               = Resolved 200 body)"
  by (auto simp: turnLightOn_def Let_def split: outcome.splits)

subsection \<open>getAllLights\<close>

lemma filter_js_set:
  "filter_js p xs = Some ys \<Longrightarrow> y \<in> set ys \<Longrightarrow> y \<in> set xs \<and> p y = Some True"
  by (induction xs arbitrary: ys) (auto split: option.splits if_splits)

lemma map_js_set:
  "map_js f xs = Some ys \<Longrightarrow> y \<in> set ys \<Longrightarrow> \<exists>x \<in> set xs. f x = Some y"
  by (induction xs arbitrary: ys) (auto split: option.splits)

lemma call_startsWith_True:
  "call_startsWith v p = Some True \<Longrightarrow> \<exists>s. v = Str s \<and> startsWith s p"
  by (cases v) auto

lemma is_light_True:
  "is_light x = Some True \<Longrightarrow>
     \<exists>s. entity_id_of x = Some (Str s) \<and> startsWith s (lit ''light.'')"
  by (auto simp: is_light_def entity_id_of_def split: option.splits dest: call_startsWith_True)

lemma light_ids_prefix:
  assumes "light_ids data = Some ids" and "v \<in> set ids"
  shows "\<exists>s. v = Str s \<and> startsWith s (lit ''light.'')"
proof -
  from assms(1) obtain xs ys where "data = Arr xs"
    and f: "filter_js is_light xs = Some ys" and m: "map_js entity_id_of ys = Some ids"
    by (auto simp: light_ids_def split: jsval.splits option.splits)
  from map_js_set [OF m assms(2)] obtain y where y: "y \<in> set ys" "entity_id_of y = Some v"
    by blast
  from filter_js_set [OF f y(1)] have "is_light y = Some True" by simp
  from is_light_True [OF this] y(2) show ?thesis by auto
qed

lemma all_lights_example:
  "fst (getAllLights (always all_states) st0) = [Str bedroom, Str (lit ''light.kitchen'')]"
  by (simp add: getAllLights_def always_def all_states_def bedroom_state_def bedroom_def
      light_ids_def is_light_def entity_id_of_def startsWith_def lit_def)

text \<open>
  C9. Every element of the list \<open>getAllLights()\<close> returns is a string that starts with
  \<open>light.\<close>, whatever the states endpoint answers; and when the request fails,
  \<open>getAllLights()\<close> returns the empty list (it returns on every path, so it never throws).
\<close>

theorem getAllLights_prefix:
  "(\<forall>v \<in> set (fst (getAllLights srv st)). \<exists>s. v = Str s \<and> startsWith s (lit ''light.''))
   \<and> (srv (sent st) (Get (lit ''/api/states'')) = Rejected \<longrightarrow>
        fst (getAllLights srv st) = [])"
  by (auto simp: getAllLights_def Let_def split: outcome.splits option.splits
      dest: light_ids_prefix)

theorem getAllLights_prefix_witness:
  "fst (getAllLights (always all_states) st0) = [Str bedroom, Str (lit ''light.kitchen'')]
   \<and> startsWith bedroom (lit ''light.'')
   \<and> startsWith (lit ''light.kitchen'') (lit ''light.'')
   \<and> unreachable (sent st0) (Get (lit ''/api/states'')) = Rejected
   \<and> fst (getAllLights unreachable st0) = []"
proof -
  have r: "unreachable (sent st0) (Get (lit ''/api/states'')) = Rejected"
    by (simp add: unreachable_def)
  from getAllLights_prefix [of "always all_states" st0]
  have "\<forall>v \<in> set (fst (getAllLights (always all_states) st0)).
          \<exists>s. v = Str s \<and> startsWith s (lit ''light.'')"
    by blast
  then have "startsWith bedroom (lit ''light.'')
      \<and> startsWith (lit ''light.kitchen'') (lit ''light.'')"
    by (simp add: all_lights_example)
  moreover from getAllLights_prefix [of unreachable st0] r
  have "fst (getAllLights unreachable st0) = []"
    by blast
  ultimately show ?thesis
    using r all_lights_example by simp
qed

text \<open>A body that is not an array of states, or holds an element without a string
  \<open>entity_id\<close>, gives the empty list as well.\<close>

lemma getAllLights_not_array:
  "fst (getAllLights (always (Obj [])) st0) = []"
  "fst (getAllLights (always (Arr [Null])) st0) = []"
  "fst (getAllLights (always (Arr [bedroom_state ''on'', Obj []])) st0) = []"
  by (simp_all add: getAllLights_def always_def light_ids_def is_light_def bedroom_state_def
      bedroom_def startsWith_def lit_def)

subsection \<open>toggleLight\<close>

lemma getLightState_example:
  "getLightState (always (bedroom_state ''on'')) st0 bedroom = (Some (bedroom_light On), st1)"
  "getLightState (always (bedroom_state ''off'')) st0 bedroom = (Some (bedroom_light Off), st1)"
  "fst (getLightState unreachable st0 bedroom) = None"
  by (simp_all add: getLightState_def always_def unreachable_def bedroom_state_def
      light_state_of_def bedroom_light_def st1_def lit_def)

text \<open>
  C10. \<open>toggleLight(entityId)\<close> returns \<open>false\<close> when \<open>getLightState(entityId)\<close> yields no
  state, and then the only request sent is the one that read the state: neither
  \<open>turn_on\<close> nor \<open>turn_off\<close> is called. When the state read is \<open>on\<close> it is
  \<open>turnLightOff(entityId)\<close>, and when it is \<open>off\<close> it is \<open>turnLightOn(entityId)\<close> with no
  brightness and no colour, each run after the read.
\<close>

theorem toggleLight_cases:
  "(fst (getLightState srv st e) = None \<longrightarrow>
      fst (toggleLight srv st e) = False
      \<and> sent (snd (toggleLight srv st e)) = sent st @ [Get (lit ''/api/states/'' @ e)])
   \<and> (\<forall>ls st'. getLightState srv st e = (Some ls, st') \<and> state ls = On \<longrightarrow>
        toggleLight srv st e = turnLightOff srv st' e)
   \<and> (\<forall>ls st'. getLightState srv st e = (Some ls, st') \<and> state ls = Off \<longrightarrow>
        toggleLight srv st e = turnLightOn srv st' e None None)"
  by (auto simp: toggleLight_def getLightState_def Let_def send_def console_error_def
      split: outcome.splits option.splits prod.splits)

theorem toggleLight_cases_witness:
  "fst (getLightState unreachable st0 bedroom) = None
   \<and> fst (toggleLight unreachable st0 bedroom) = False
   \<and> sent (snd (toggleLight unreachable st0 bedroom))
       = sent st0 @ [Get (lit ''/api/states/'' @ bedroom)]
   \<and> getLightState (always (bedroom_state ''on'')) st0 bedroom = (Some (bedroom_light On), st1)
   \<and> state (bedroom_light On) = On
   \<and> toggleLight (always (bedroom_state ''on'')) st0 bedroom
       = turnLightOff (always (bedroom_state ''on'')) st1 bedroom
   \<and> getLightState (always (bedroom_state ''off'')) st0 bedroom = (Some (bedroom_light Off), st1)
   \<and> state (bedroom_light Off) = Off
   \<and> toggleLight (always (bedroom_state ''off'')) st0 bedroom
       = turnLightOn (always (bedroom_state ''off'')) st1 bedroom None None"
  using toggleLight_cases [of unreachable st0 bedroom]
    toggleLight_cases [of "always (bedroom_state ''on'')" st0 bedroom]
    toggleLight_cases [of "always (bedroom_state ''off'')" st0 bedroom]
    getLightState_example
  by (simp add: bedroom_light_def)

text \<open>Any state other than \<open>on\<close> is read as \<open>off\<close>, so toggling turns the light on.\<close>

lemma toggleLight_unavailable:
  "sent (snd (toggleLight (always (bedroom_state ''unavailable'')) st0 bedroom))
     = [Get (lit ''/api/states/'' @ bedroom),
        Post (lit ''/api/services/light/turn_on'') (Obj [(lit ''entity_id'', Str bedroom)])]"
  by (simp add: toggleLight_def getLightState_def always_def bedroom_state_def
      light_state_of_def turnLightOn_def serviceData_def send_def st0_def lit_def)

section \<open>Properties of the remote invocation substrate\<close>

subsection \<open>A failing pre-build step\<close>

text \<open>
  C3. If a pre-build step is configured and it exits with non-zero status during
  \<open>connect()\<close>, after a successful handshake, then \<open>connect()\<close> fails with \<open>BuildError\<close>
  carrying the captured standard error, the connection ends in state \<open>Errored\<close>, and it
  is never in state \<open>Ready\<close> on the way.
\<close>

theorem failed_build_ends_errored:
  assumes "build_step d (config c) = Some cmd" and "exit_code (run cmd) \<noteq> 0"
  shows "connect d Established run c
           = (Some (BuildError (stderr (run cmd))), c\<lparr>conn_state := Errored\<rparr>)
         \<and> Ready \<notin> set (snd (connect_run d Established run (config c)))"
  using assms by (simp add: connect_def connect_run_def)

theorem failed_build_ends_errored_witness:
  "build_step ''npm run build'' (config idle_connection) = Some ''npm install && npm run build''
   \<and> exit_code (failing_build ''npm install && npm run build'') \<noteq> 0
   \<and> connect ''npm run build'' Established failing_build idle_connection
       = (Some (BuildError ''npm ERR! build failed''), idle_connection\<lparr>conn_state := Errored\<rparr>)
   \<and> Ready \<notin> set (snd (connect_run ''npm run build'' Established failing_build
                          (config idle_connection)))"
proof -
  have b: "build_step ''npm run build'' (config idle_connection)
             = Some ''npm install && npm run build''"
    by (simp add: build_step_def idle_connection_def ubuntuConfig_def)
  have e: "exit_code (failing_build ''npm install && npm run build'') \<noteq> 0"
    by (simp add: failing_build_def)
  from failed_build_ends_errored [of "''npm run build''" idle_connection
      "''npm install && npm run build''" failing_build, OF b e] b e
  show ?thesis
    by (simp add: failing_build_def)
qed

subsection \<open>A member the module does not export\<close>

text \<open>
  C2. When the target module loads and does not export the member invoked, the generated
  program still ends: it exits with status zero after printing one failure envelope on
  standard output, and the call on a \<open>Ready\<close> connection whose transport works fails with
  \<open>RemoteLogicError\<close>, not with \<open>RemoteExecutionError\<close>.
\<close>

theorem missing_member_is_logic_error:
  assumes "conn_state c = Ready" and "\<not> upload_fails flt" and "\<not> run_fails flt"
    and "sandbox rh mp = Some m" and "m fn = None"
  shows "run_program (sandbox rh) (generate mp fn as)
           = \<lparr>exit_code = 0, stdout = [EnvelopeLine (Failure (missing_export fn))],
              stderr = []\<rparr>
         \<and> result (executeFunction flt cid c rh mp fn as)
             = Inl (RemoteLogicError (missing_export fn))"
  using assms
  by (simp add: executeFunction_def Let_def run_program_def generate_def read_result_def
      envelopes_def)

theorem missing_member_is_logic_error_witness:
  "conn_state ready_connection = Ready \<and> \<not> upload_fails no_faults \<and> \<not> run_fails no_faults
   \<and> sandbox demo_remote ''./index'' = Some (\<lambda>fn. if fn = ''echo'' then Some echo else None)
   \<and> (\<lambda>fn. if fn = ''echo'' then Some echo else None) ''missing'' = None
   \<and> run_program (sandbox demo_remote) (generate ''./index'' ''missing'' [])
       = \<lparr>exit_code = 0, stdout = [EnvelopeLine (Failure (missing_export ''missing''))],
          stderr = []\<rparr>
   \<and> result (executeFunction no_faults 7 ready_connection demo_remote ''./index'' ''missing'' [])
       = Inl (RemoteLogicError (missing_export ''missing''))"
proof -
  have h: "conn_state ready_connection = Ready" "\<not> upload_fails no_faults"
    "\<not> run_fails no_faults"
    "sandbox demo_remote ''./index'' = Some (\<lambda>fn. if fn = ''echo'' then Some echo else None)"
    "(\<lambda>fn. if fn = ''echo'' then Some echo else None) ''missing'' = None"
    by (simp_all add: ready_connection_def no_faults_def demo_remote_def demo_sandbox_def)
  from missing_member_is_logic_error [OF h, of "[]" 7] h show ?thesis
    by simp
qed

subsection \<open>Cleanup of the disposable artifact\<close>

text \<open>
  C6. For every invocation on a \<open>Ready\<close> connection, whatever the upload, the run and
  the remote function do (success, a failure reported in the envelope, a transport
  failure), the last operation the executor attempts is \<open>deleteFile\<close> on the artifact
  path; and the invocation's result is the same whether that deletion fails or succeeds.
\<close>

theorem cleanup_attempted_never_masks:
  assumes "conn_state c = Ready"
  shows "last (attempted (executeFunction flt cid c rh mp fn as)) = DeleteFile (artifact_path cid)
         \<and> DeleteFile (artifact_path cid) \<in> set (attempted (executeFunction flt cid c rh mp fn as))
         \<and> result (executeFunction (flt\<lparr>delete_fails := True\<rparr>) cid c rh mp fn as)
             = result (executeFunction (flt\<lparr>delete_fails := False\<rparr>) cid c rh mp fn as)"
  using assms by (simp add: executeFunction_def Let_def)

theorem cleanup_attempted_never_masks_witness:
  "conn_state ready_connection = Ready
   \<and> last (attempted (executeFunction (no_faults\<lparr>delete_fails := True\<rparr>) 7 ready_connection
        demo_remote ''./index'' ''echo'' [Num (Finite 2)])) = DeleteFile ''/tmp/ssh-remote-code-7.js''
   \<and> result (executeFunction (no_faults\<lparr>delete_fails := True\<rparr>) 7 ready_connection
        demo_remote ''./index'' ''echo'' [Num (Finite 2)]) = Inr (Arr [Num (Finite 2)])"
proof -
  have h: "conn_state ready_connection = Ready"
    by (simp add: ready_connection_def)
  have r: "result (executeFunction (no_faults\<lparr>delete_fails := False\<rparr>) 7 ready_connection
        demo_remote ''./index'' ''echo'' [Num (Finite 2)]) = Inr (Arr [Num (Finite 2)])"
    by (simp add: executeFunction_def Let_def h no_faults_def demo_remote_def demo_sandbox_def
        generate_def run_program_def read_result_def envelopes_def echo_def)
  have p: "artifact_path 7 = ''/tmp/ssh-remote-code-7.js''"
    by (simp add: artifact_path_def digit_def)
  from cleanup_attempted_never_masks [OF h, of "no_faults\<lparr>delete_fails := True\<rparr>" 7
      demo_remote "''./index''" "''echo''" "[Num (Finite 2)]"] h r p
  show ?thesis by simp
qed

end
